theory Spec2Isabelle
  imports Complex_Main "HOL-Library.Product_Lexorder" "HOL-Library.Char_ord"
    "HOL-Library.List_Lexorder"
begin

section \<open>Numbers and errors\<close>

text \<open>
  A float64 cell is a real number or one of the three special values that the code tests
  for (\<open>np.nan\<close>, \<open>np.inf\<close>, \<open>-np.inf\<close>). Arithmetic on finite values is exact real
  arithmetic: neither the rounding nor the overflow of float64 is modelled.
\<close>

datatype pyfloat = Fin real | PInf | NInf | NaN

text \<open>
  The exceptions the two scripts can raise, with the data their messages carry:
  \<open>np.argmax\<close> on an empty array, the \<open>ValueError\<close> of \<open>build_local_features\<close>
  (file name, missing columns), the \<open>SystemExit\<close>s of the two \<open>main\<close>s and the
  \<open>ValueError\<close> of the splitter's size check.
\<close>

datatype error =
    ValueError_argmax_empty
  | ValueError_missing_columns string "string list"
  | SystemExit_wesad_missing_columns "string list"
  | SystemExit_no_local_csv
  | SystemExit_no_rows
  | ValueError_split_size

fun isfinite :: "pyfloat \<Rightarrow> bool" where
  "isfinite (Fin _) = True"
| "isfinite _ = False"

fun isna :: "pyfloat \<Rightarrow> bool" where
  "isna NaN = True"
| "isna _ = False"

text \<open>\<open>a > b\<close> on float64: every comparison with NaN is false.\<close>

fun fgt :: "pyfloat \<Rightarrow> pyfloat \<Rightarrow> bool" where
  "fgt NaN _ = False"
| "fgt _ NaN = False"
| "fgt (Fin a) (Fin b) = (a > b)"
| "fgt PInf PInf = False"
| "fgt PInf _ = True"
| "fgt NInf _ = False"
| "fgt (Fin _) NInf = True"
| "fgt (Fin _) PInf = False"

text \<open>IEEE addition, negation and multiplication on the special values.\<close>

fun fadd :: "pyfloat \<Rightarrow> pyfloat \<Rightarrow> pyfloat" where
  "fadd NaN _ = NaN"
| "fadd _ NaN = NaN"
| "fadd (Fin a) (Fin b) = Fin (a + b)"
| "fadd PInf NInf = NaN"
| "fadd NInf PInf = NaN"
| "fadd PInf _ = PInf"
| "fadd NInf _ = NInf"
| "fadd (Fin _) PInf = PInf"
| "fadd (Fin _) NInf = NInf"

fun fneg :: "pyfloat \<Rightarrow> pyfloat" where
  "fneg (Fin a) = Fin (- a)"
| "fneg PInf = NInf"
| "fneg NInf = PInf"
| "fneg NaN = NaN"

definition fsub :: "pyfloat \<Rightarrow> pyfloat \<Rightarrow> pyfloat" where
  "fsub a b = fadd a (fneg b)"

text \<open>A finite factor times a float: \<open>0 * inf\<close> is NaN.\<close>

fun fscale :: "real \<Rightarrow> pyfloat \<Rightarrow> pyfloat" where
  "fscale a (Fin b) = Fin (a * b)"
| "fscale a NaN = NaN"
| "fscale a PInf = (if a = 0 then NaN else if a > 0 then PInf else NInf)"
| "fscale a NInf = (if a = 0 then NaN else if a > 0 then NInf else PInf)"

text \<open>
  A float divided by a finite, strictly positive number (\<open>1000.0\<close>, \<open>10.0\<close>, a
  length, a denominator past its \<open>1e-9\<close> guard): the special values stay as they are.
\<close>

fun fdiv :: "pyfloat \<Rightarrow> real \<Rightarrow> pyfloat" where
  "fdiv (Fin a) d = Fin (a / d)"
| "fdiv v d = v"

definition fsum :: "pyfloat list \<Rightarrow> pyfloat" where
  "fsum xs = foldl fadd (Fin 0) xs"

definition fmean :: "pyfloat list \<Rightarrow> pyfloat" where
  "fmean xs = fdiv (fsum xs) (real (length xs))"

text \<open>The order of float64 values that are not NaN, as a sort key; NaN sorts last.\<close>

fun fkey :: "pyfloat \<Rightarrow> int \<times> real" where
  "fkey NInf = (-1, 0)"
| "fkey (Fin a) = (0, a)"
| "fkey PInf = (1, 0)"
| "fkey NaN = (2, 0)"

section \<open>numpy primitives on finite arrays\<close>

definition np_mean :: "real list \<Rightarrow> real" where
  "np_mean xs = sum_list xs / real (length xs)"

text \<open>\<open>np.std\<close>: the population standard deviation (\<open>ddof = 0\<close>).\<close>

definition np_std :: "real list \<Rightarrow> real" where
  "np_std xs = sqrt (np_mean (map (\<lambda>x. (x - np_mean xs)\<^sup>2) xs))"

text \<open>\<open>np.diff\<close>: \<open>out[i] = a[i+1] - a[i]\<close>.\<close>

fun np_diff :: "'a::minus list \<Rightarrow> 'a list" where
  "np_diff (a # b # xs) = (b - a) # np_diff (b # xs)"
| "np_diff _ = []"

text \<open>
  \<open>np.unique(a, return_counts=True)\<close>: the sorted distinct values, and how often each
  occurs.
\<close>

definition np_unique_counts :: "int list \<Rightarrow> int list \<times> nat list" where
  "np_unique_counts a =
     (let vals = sorted_list_of_set (set a) in (vals, map (count_list a) vals))"

text \<open>
  \<open>np.argmax\<close>: the index of the first occurrence of the maximum; on an empty array it
  raises \<open>ValueError\<close>.
\<close>

definition np_argmax :: "nat list \<Rightarrow> error + nat" where
  "np_argmax cs =
     (if cs = [] then Inl ValueError_argmax_empty
      else Inr (length (takeWhile (\<lambda>c. c \<noteq> Max (set cs)) cs)))"

section \<open>wesad\_prepare.py\<close>

subsection \<open>\<open>_majority_label\<close>\<close>

definition majority_label :: "int list \<Rightarrow> error + int" where
  "majority_label labels =
     (let (vals, counts) = np_unique_counts labels in
      case np_argmax counts of
        Inl e \<Rightarrow> Inl e
      | Inr i \<Rightarrow> Inr (vals ! i))"

subsection \<open>\<open>_hr_features_from_bvp\<close>\<close>

record hr_features =
  bpm_avg :: pyfloat
  bpm_min :: pyfloat
  bpm_max :: pyfloat
  bpm_std :: pyfloat
  hrv_rmssd :: pyfloat
  hrv_sdnn :: pyfloat

text \<open>
  \<open>rr = np.diff(peaks) / fs\<close> followed by \<open>rr = rr[(rr > 0.3) & (rr < 1.8)]\<close>.
  A zero \<open>fs\<close> gives infinite quotients in numpy and \<open>0\<close> here; both fail the mask.
\<close>

definition rr_seconds :: "int list \<Rightarrow> int \<Rightarrow> real list" where
  "rr_seconds peaks fs = map (\<lambda>d. real_of_int d / real_of_int fs) (np_diff peaks)"

definition rr_mask :: "real list \<Rightarrow> real list" where
  "rr_mask rr = filter (\<lambda>r. r > 0.3 \<and> r < 1.8) rr"

text \<open>
  \<open>scipy.signal.find_peaks\<close> is a parameter: it takes the normalised segment, the
  minimum distance and the prominence and returns the peak indices. The mean and the
  standard deviation of an empty segment are NaN in numpy; the centred segment is empty
  then, and \<open>NaN > 1e-9\<close> is false as \<open>0 > 1e-9\<close> is here.
\<close>

definition hr_features_from_bvp ::
  "(real list \<Rightarrow> nat \<Rightarrow> real \<Rightarrow> int list) \<Rightarrow> real list \<Rightarrow> int \<Rightarrow> hr_features" where
  "hr_features_from_bvp find_peaks bvp fs =
     (if int (length bvp) < fs then
        \<lparr>bpm_avg = NaN, bpm_min = NaN, bpm_max = NaN, bpm_std = NaN,
         hrv_rmssd = NaN, hrv_sdnn = NaN\<rparr>
      else
        let centered0 = map (\<lambda>v. v - np_mean bvp) bvp;
            scale = np_std centered0;
            centered = (if scale > 1 / 10 ^ 9 then map (\<lambda>v. v / scale) centered0 else centered0);
            distance = nat \<lfloor>max 1 (real_of_int fs * 0.4)\<rfloor>;
            peaks = find_peaks centered distance 0.2
        in
        if length peaks < 2 then
          \<lparr>bpm_avg = NaN, bpm_min = NaN, bpm_max = NaN, bpm_std = NaN,
           hrv_rmssd = NaN, hrv_sdnn = NaN\<rparr>
        else
          let rr = rr_mask (rr_seconds peaks fs) in
          if length rr < 2 then
            \<lparr>bpm_avg = NaN, bpm_min = NaN, bpm_max = NaN, bpm_std = NaN,
             hrv_rmssd = NaN, hrv_sdnn = NaN\<rparr>
          else
            let bpm = map (\<lambda>r. 60 / r) rr;
                rr_ms = map (\<lambda>r. r * 1000) rr;
                diff_rr = np_diff rr_ms;
                rmssd = (if diff_rr \<noteq> [] then Fin (sqrt (np_mean (map (\<lambda>d. d\<^sup>2) diff_rr)))
                         else NaN);
                sdnn = (if rr_ms \<noteq> [] then Fin (np_std rr_ms) else NaN)
            in
            \<lparr>bpm_avg = Fin (np_mean bpm), bpm_min = Fin (Min (set bpm)),
             bpm_max = Fin (Max (set bpm)), bpm_std = Fin (np_std bpm),
             hrv_rmssd = rmssd, hrv_sdnn = sdnn\<rparr>)"

text \<open>
  A detector that reports the given indices whatever the segment, for an example in
  which the detector is not reached.
\<close>

definition peaks_at :: "int list \<Rightarrow> real list \<Rightarrow> nat \<Rightarrow> real \<Rightarrow> int list" where
  "peaks_at ps sig distance prominence = ps"



text \<open>\<open>np.arange(n, dtype=np.float64)\<close>.\<close>

definition np_arange :: "nat \<Rightarrow> real list" where
  "np_arange n = map real [0..<n]"

section \<open>merge\_local\_and\_train.py\<close>

datatype feature_column =
    Bpm_avg | Bpm_min | Bpm_max | Bpm_std | Hrv_rmssd | Hrv_sdnn
  | Gsr_avg | Gsr_min | Gsr_max | Gsr_std | Gsr_slope
  | Temp_avg | Temp_min | Temp_max | Temp_std | Temp_slope

definition FEATURE_COLUMNS :: "feature_column list" where
  "FEATURE_COLUMNS =
     [Bpm_avg, Bpm_min, Bpm_max, Bpm_std, Hrv_rmssd, Hrv_sdnn,
      Gsr_avg, Gsr_min, Gsr_max, Gsr_std, Gsr_slope,
      Temp_avg, Temp_min, Temp_max, Temp_std, Temp_slope]"

fun column_name :: "feature_column \<Rightarrow> string" where
  "column_name Bpm_avg = ''bpm_avg''"
| "column_name Bpm_min = ''bpm_min''"
| "column_name Bpm_max = ''bpm_max''"
| "column_name Bpm_std = ''bpm_std''"
| "column_name Hrv_rmssd = ''hrv_rmssd''"
| "column_name Hrv_sdnn = ''hrv_sdnn''"
| "column_name Gsr_avg = ''gsr_avg''"
| "column_name Gsr_min = ''gsr_min''"
| "column_name Gsr_max = ''gsr_max''"
| "column_name Gsr_std = ''gsr_std''"
| "column_name Gsr_slope = ''gsr_slope''"
| "column_name Temp_avg = ''temp_avg''"
| "column_name Temp_min = ''temp_min''"
| "column_name Temp_max = ''temp_max''"
| "column_name Temp_std = ''temp_std''"
| "column_name Temp_slope = ''temp_slope''"

definition LOCAL_REQUIRED :: "string list" where
  "LOCAL_REQUIRED = [''time_iso'', ''ts'', ''bpm_avg'', ''gsr_avg'', ''temp_avg'', ''label'']"

subsection \<open>Trailing windows\<close>

text \<open>\<open>lo = max(0, i - win + 1)\<close> and the slice \<open>arr[lo:i + 1]\<close>.\<close>

definition trailing_window :: "'a list \<Rightarrow> nat \<Rightarrow> nat \<Rightarrow> 'a list" where
  "trailing_window arr win i =
     (let lo = nat (max 0 (int i - int win + 1)) in drop lo (take (i + 1) arr))"

subsection \<open>\<open>_rolling_slope\<close>\<close>

text \<open>The body of the loop, on the window \<open>y\<close>.\<close>

definition rolling_slope_window :: "pyfloat list \<Rightarrow> pyfloat" where
  "rolling_slope_window y =
     (if length y < 2 then Fin 0
      else
        let x = np_arange (length y);
            x_mean = np_mean x;
            y_mean = fmean y;
            den = sum_list (map (\<lambda>a. (a - x_mean)\<^sup>2) x)
        in
        if den < 1 / 10 ^ 9 then Fin 0
        else fdiv (fsum (map2 (\<lambda>a b. fscale (a - x_mean) (fsub b y_mean)) x y)) den)"

definition rolling_slope :: "pyfloat list \<Rightarrow> nat \<Rightarrow> pyfloat list" where
  "rolling_slope values win =
     map (\<lambda>i. rolling_slope_window (trailing_window values win i)) [0..<length values]"

subsection \<open>\<open>_rmssd_from_bpm_series\<close> and \<open>_sdnn_from_bpm_series\<close>\<close>

text \<open>\<open>w[np.isfinite(w) & (w > 1e-6)]\<close>.\<close>

fun valid_bpm :: "pyfloat list \<Rightarrow> real list" where
  "valid_bpm [] = []"
| "valid_bpm (Fin v # w) = (if v > 1 / 10 ^ 6 then v # valid_bpm w else valid_bpm w)"
| "valid_bpm (_ # w) = valid_bpm w"

definition rmssd_window :: "pyfloat list \<Rightarrow> real" where
  "rmssd_window w0 =
     (let w = valid_bpm w0 in
      if length w < 3 then 0
      else
        let rr = map (\<lambda>v. 60000 / v) w;
            d = np_diff rr
        in if d \<noteq> [] then sqrt (np_mean (map (\<lambda>a. a * a) d)) else 0)"

definition rmssd_from_bpm_series :: "pyfloat list \<Rightarrow> nat \<Rightarrow> real list" where
  "rmssd_from_bpm_series bpm win =
     map (\<lambda>i. rmssd_window (trailing_window bpm win i)) [0..<length bpm]"

definition sdnn_window :: "pyfloat list \<Rightarrow> real" where
  "sdnn_window w0 =
     (let w = valid_bpm w0 in
      if length w < 2 then 0
      else np_std (map (\<lambda>v. 60000 / v) w))"

definition sdnn_from_bpm_series :: "pyfloat list \<Rightarrow> nat \<Rightarrow> real list" where
  "sdnn_from_bpm_series bpm win =
     map (\<lambda>i. sdnn_window (trailing_window bpm win i)) [0..<length bpm]"

subsection \<open>pandas rolling aggregates\<close>

text \<open>
  \<open>Series.rolling(win, min_periods=k)\<close>: the window of row \<open>i\<close> is the trailing window;
  its observations are the values that are neither NaN nor infinite (pandas turns
  infinities into NaN before it aggregates); with fewer than \<open>k\<close> observations the
  result is NaN. \<open>std\<close> is the sample standard deviation (\<open>ddof = 1\<close>), NaN on fewer
  than two observations.
\<close>

fun observations :: "pyfloat list \<Rightarrow> real list" where
  "observations [] = []"
| "observations (Fin v # w) = v # observations w"
| "observations (_ # w) = observations w"

definition rolling :: "(real list \<Rightarrow> pyfloat) \<Rightarrow> pyfloat list \<Rightarrow> nat \<Rightarrow> nat \<Rightarrow> pyfloat list" where
  "rolling agg values win min_periods =
     map (\<lambda>i. let obs = observations (trailing_window values win i)
               in if length obs < min_periods then NaN else agg obs)
         [0..<length values]"

definition agg_min :: "real list \<Rightarrow> pyfloat" where
  "agg_min obs = (if obs = [] then NaN else Fin (Min (set obs)))"

definition agg_max :: "real list \<Rightarrow> pyfloat" where
  "agg_max obs = (if obs = [] then NaN else Fin (Max (set obs)))"

definition agg_std :: "real list \<Rightarrow> pyfloat" where
  "agg_std obs =
     (if length obs < 2 then NaN
      else Fin (sqrt (sum_list (map (\<lambda>v. (v - np_mean obs)\<^sup>2) obs) / (real (length obs) - 1))))"

definition fillna :: "real \<Rightarrow> pyfloat list \<Rightarrow> pyfloat list" where
  "fillna v col = map (\<lambda>a. if isna a then Fin v else a) col"

text \<open>\<open>Series.median(skipna=True)\<close>: NaN on a column with no value.\<close>

definition median_skipna :: "pyfloat list \<Rightarrow> pyfloat" where
  "median_skipna col =
     (let v = sort_key fkey (filter (\<lambda>a. \<not> isna a) col);
          n = length v
      in if n = 0 then NaN
         else if odd n then v ! (n div 2)
         else fdiv (fadd (v ! (n div 2 - 1)) (v ! (n div 2))) 2)"

subsection \<open>Field-session tables\<close>

text \<open>
  A row of a session CSV once its cells are typed: \<open>time_iso\<close> after
  \<open>pd.to_datetime(errors="coerce")\<close> (\<open>None\<close> is NaT), the three averages after
  \<open>pd.to_numeric(errors="coerce")\<close> (text that is no number is NaN), the label after
  \<open>astype(str)\<close>. The fields carry the prefix \<open>loc_\<close> to keep them apart from the
  feature names.
\<close>

record local_row =
  loc_time_iso :: "int option"
  loc_ts :: pyfloat
  loc_bpm_avg :: pyfloat
  loc_gsr_avg :: pyfloat
  loc_temp_avg :: pyfloat
  loc_label :: string

text \<open>
  A session file that \<open>pd.read_csv\<close> has read and whose \<open>time_iso\<close> column
  \<open>pd.to_datetime\<close> has coerced: the stem of its name, its header and its typed rows. A
  file on which one of the two raises (an empty file, for one) is outside this type.
\<close>

record session =
  csv_stem :: string
  csv_columns :: "string list"
  csv_rows :: "local_row list"

text \<open>A row of a feature table; a missing subject is \<open>None\<close>.\<close>

record feature_row =
  subject :: "string option"
  label :: pyfloat
  features :: "feature_column \<Rightarrow> pyfloat"

text \<open>The rows \<open>wesad_prepare.py\<close> builds carry the window bounds as well.\<close>

record wesad_row = feature_row +
  window_start_s :: pyfloat
  window_end_s :: pyfloat

text \<open>A features CSV as read: its header and its rows.\<close>

record features_csv =
  fcsv_columns :: "string list"
  fcsv_rows :: "feature_row list"

subsection \<open>\<open>_normalize_local_units\<close>\<close>

definition normalize_local_units :: "local_row list \<Rightarrow> local_row list" where
  "normalize_local_units df =
     (let out1 = (if fgt (median_skipna (map loc_gsr_avg df)) (Fin 50)
                  then map (\<lambda>r. r\<lparr>loc_gsr_avg := fdiv (loc_gsr_avg r) 1000\<rparr>) df else df);
          out2 = (if fgt (median_skipna (map loc_temp_avg out1)) (Fin 80)
                  then map (\<lambda>r. r\<lparr>loc_temp_avg := fdiv (loc_temp_avg r) 10\<rparr>) out1 else out1);
          out3 = (if fgt (median_skipna (map loc_temp_avg out2)) (Fin 80)
                  then map (\<lambda>r. r\<lparr>loc_temp_avg := fdiv (loc_temp_avg r) 10\<rparr>) out2 else out2)
      in out3)"

subsection \<open>\<open>build_local_features\<close>\<close>

text \<open>
  \<open>str.strip\<close> and \<open>str.lower\<close> on ASCII text; the white space and the letters beyond
  ASCII that Python also handles are not modelled.
\<close>

definition is_space :: "char \<Rightarrow> bool" where
  "is_space c = (let n = (of_char c :: nat) in (9 \<le> n \<and> n \<le> 13) \<or> (28 \<le> n \<and> n \<le> 32))"

definition str_strip :: "string \<Rightarrow> string" where
  "str_strip s = rev (dropWhile is_space (rev (dropWhile is_space s)))"

definition str_lower :: "string \<Rightarrow> string" where
  "str_lower s =
     map (\<lambda>c. let n = (of_char c :: nat) in if 65 \<le> n \<and> n \<le> 90 then char_of (n + 32) else c) s"

definition label_map :: "string \<Rightarrow> int option" where
  "label_map = map_of
     [(''rest'', 0), (''recovery'', 0), (''unlabeled'', 0), (''stress_task'', 1), (''stress'', 1)]"

text \<open>
  \<open>sort_values(["time_iso", "ts"], na_position="last")\<close>: a stable sort on the pair of
  keys, missing values last.
\<close>

definition sort_values :: "local_row list \<Rightarrow> local_row list" where
  "sort_values df =
     sort_key (\<lambda>r. (case loc_time_iso r of Some t \<Rightarrow> (0 :: int, t) | None \<Rightarrow> (1, 0),
                     fkey (loc_ts r))) df"

text \<open>\<open>replace([np.inf, -np.inf], np.nan)\<close> on the numeric columns of a row.\<close>

fun inf_to_nan :: "pyfloat \<Rightarrow> pyfloat" where
  "inf_to_nan PInf = NaN"
| "inf_to_nan NInf = NaN"
| "inf_to_nan v = v"

definition replace_inf :: "'a feature_row_scheme \<Rightarrow> 'a feature_row_scheme" where
  "replace_inf r = r\<lparr>label := inf_to_nan (label r), features := (\<lambda>c. inf_to_nan (features r c))\<rparr>"

text \<open>\<open>dropna(subset=FEATURE_COLUMNS + ["label", "subject"])\<close>.\<close>

definition dropna_subset :: "'a feature_row_scheme list \<Rightarrow> 'a feature_row_scheme list" where
  "dropna_subset df =
     filter (\<lambda>r. list_all (\<lambda>c. \<not> isna (features r c)) FEATURE_COLUMNS
                 \<and> \<not> isna (label r) \<and> subject r \<noteq> None) df"

text \<open>
  The rows that survive \<open>dropna(subset=["bpm_avg", "gsr_avg", "temp_avg", "label_bin"])\<close>,
  each with its \<open>label_bin\<close>.
\<close>

definition labelled_rows :: "local_row list \<Rightarrow> (local_row \<times> int) list" where
  "labelled_rows df =
     List.map_filter
       (\<lambda>r. case label_map (str_lower (str_strip (loc_label r))) of
               None \<Rightarrow> None
             | Some l \<Rightarrow>
                 if isna (loc_bpm_avg r) \<or> isna (loc_gsr_avg r) \<or> isna (loc_temp_avg r)
                 then None else Some (r, l))
       df"

definition local_feature_rows :: "string \<Rightarrow> local_row list \<Rightarrow> feature_row list" where
  "local_feature_rows stem rows =
     (let kept = labelled_rows (normalize_local_units (sort_values rows));
          win = 8;
          bpm = map (loc_bpm_avg \<circ> fst) kept;
          gsr = map (loc_gsr_avg \<circ> fst) kept;
          temp = map (loc_temp_avg \<circ> fst) kept;
          c_bpm_min = rolling agg_min bpm win 1;
          c_bpm_max = rolling agg_max bpm win 1;
          c_bpm_std = fillna 0 (rolling agg_std bpm win 2);
          c_hrv_rmssd = rmssd_from_bpm_series bpm win;
          c_hrv_sdnn = sdnn_from_bpm_series bpm win;
          c_gsr_min = rolling agg_min gsr win 1;
          c_gsr_max = rolling agg_max gsr win 1;
          c_gsr_std = fillna 0 (rolling agg_std gsr win 2);
          c_gsr_slope = rolling_slope gsr win;
          c_temp_min = rolling agg_min temp win 1;
          c_temp_max = rolling agg_max temp win 1;
          c_temp_std = fillna 0 (rolling agg_std temp win 2);
          c_temp_slope = rolling_slope temp win;
          out = map (\<lambda>i.
                  \<lparr>subject = Some (''LOCAL_'' @ stem),
                   label = Fin (real_of_int (snd (kept ! i))),
                   features = (\<lambda>c. case c of
                       Bpm_avg \<Rightarrow> bpm ! i | Bpm_min \<Rightarrow> c_bpm_min ! i | Bpm_max \<Rightarrow> c_bpm_max ! i
                     | Bpm_std \<Rightarrow> c_bpm_std ! i | Hrv_rmssd \<Rightarrow> Fin (c_hrv_rmssd ! i)
                     | Hrv_sdnn \<Rightarrow> Fin (c_hrv_sdnn ! i)
                     | Gsr_avg \<Rightarrow> gsr ! i | Gsr_min \<Rightarrow> c_gsr_min ! i | Gsr_max \<Rightarrow> c_gsr_max ! i
                     | Gsr_std \<Rightarrow> c_gsr_std ! i | Gsr_slope \<Rightarrow> c_gsr_slope ! i
                     | Temp_avg \<Rightarrow> temp ! i | Temp_min \<Rightarrow> c_temp_min ! i | Temp_max \<Rightarrow> c_temp_max ! i
                     | Temp_std \<Rightarrow> c_temp_std ! i | Temp_slope \<Rightarrow> c_temp_slope ! i)\<rparr>)
                [0..<length kept]
      in dropna_subset (map replace_inf out))"

definition build_local_features :: "session \<Rightarrow> error + feature_row list" where
  "build_local_features local_csv =
     (let missing = filter (\<lambda>c. c \<notin> set (csv_columns local_csv)) LOCAL_REQUIRED in
      if missing \<noteq> [] then Inl (ValueError_missing_columns (csv_stem local_csv @ ''.csv'') missing)
      else Inr (local_feature_rows (csv_stem local_csv) (csv_rows local_csv)))"

subsection \<open>\<open>main\<close>: merging and harmonizing\<close>

text \<open>The loop \<open>for f in local_files: local_frames.append(build_local_features(f))\<close>.\<close>

fun local_frames :: "session list \<Rightarrow> error + feature_row list list" where
  "local_frames [] = Inr []"
| "local_frames (f # fs) =
     (case build_local_features f of
        Inl e \<Rightarrow> Inl e
      | Inr frame \<Rightarrow>
          (case local_frames fs of
             Inl e \<Rightarrow> Inl e
           | Inr frames \<Rightarrow> Inr (frame # frames)))"

text \<open>
  \<open>main\<close> up to the table it writes to \<open>out_merged_csv\<close> and hands to \<open>train_combined\<close>.
  The missing columns are reported in the order of the schema.
\<close>

definition merge_main :: "features_csv \<Rightarrow> session list \<Rightarrow> error + feature_row list" where
  "merge_main wesad_features local_files =
     (let needed = ''subject'' # ''label'' # map column_name FEATURE_COLUMNS;
          miss = filter (\<lambda>c. c \<notin> set (fcsv_columns wesad_features)) needed
      in
      if miss \<noteq> [] then Inl (SystemExit_wesad_missing_columns miss)
      else if local_files = [] then Inl SystemExit_no_local_csv
      else
        case local_frames local_files of
          Inl e \<Rightarrow> Inl e
        | Inr frames \<Rightarrow>
            let local_df = concat frames;
                combined = fcsv_rows wesad_features @ local_df
            in Inr (dropna_subset (map replace_inf combined)))"

subsection \<open>\<open>wesad_prepare.main\<close>: collating the rows\<close>

text \<open>\<open>df.replace([np.inf, -np.inf], np.nan)\<close> and \<open>df.dropna()\<close> on every column.\<close>

definition wesad_collate :: "wesad_row list \<Rightarrow> error + wesad_row list" where
  "wesad_collate all_rows =
     (if all_rows = [] then Inl SystemExit_no_rows
      else
        let df = map (\<lambda>r. (replace_inf r)\<lparr>window_start_s := inf_to_nan (window_start_s r),
                                            window_end_s := inf_to_nan (window_end_s r)\<rparr>) all_rows
        in Inr (filter (\<lambda>r. \<not> isna (window_start_s r) \<and> \<not> isna (window_end_s r)) (dropna_subset df)))"

subsection \<open>The group-aware split\<close>

text \<open>
  \<open>GroupShuffleSplit(n_splits=1, test_size, random_state).split(X, y, groups)\<close> of
  scikit-learn: the distinct groups are numbered in sorted order, the size check turns the
  fraction into a number of test groups, a random permutation of the group numbers is
  cut into the test groups and the train groups, and each side gets the row indices whose
  group is on it. The random draw is the parameter \<open>permutation\<close>.
\<close>

definition validate_shuffle_split :: "nat \<Rightarrow> real \<Rightarrow> error + (nat \<times> nat)" where
  "validate_shuffle_split n_samples test_size =
     (if test_size \<le> 0 \<or> test_size \<ge> 1 then Inl ValueError_split_size
      else
        let n_test = nat \<lceil>test_size * real n_samples\<rceil>;
            n_train = n_samples - n_test
        in if n_train = 0 then Inl ValueError_split_size else Inr (n_train, n_test))"

definition group_shuffle_split ::
  "(nat \<Rightarrow> nat list) \<Rightarrow> real \<Rightarrow> 'g::linorder list \<Rightarrow> error + (nat list \<times> nat list)" where
  "group_shuffle_split permutation test_size groups =
     (let classes = sorted_list_of_set (set groups);
          group_indices = map (\<lambda>g. length (takeWhile (\<lambda>c. c \<noteq> g) classes)) groups
      in
      case validate_shuffle_split (length classes) test_size of
        Inl e \<Rightarrow> Inl e
      | Inr (n_train, n_test) \<Rightarrow>
          let perm = permutation (length classes);
              group_test = take n_test perm;
              group_train = take n_train (drop n_test perm);
              train = filter (\<lambda>i. group_indices ! i \<in> set group_train) [0..<length groups];
              test = filter (\<lambda>i. group_indices ! i \<in> set group_test) [0..<length groups]
          in Inr (train, test))"

text \<open>\<open>g_train, g_test = groups[train_idx], groups[test_idx]\<close>.\<close>

definition take_rows :: "'a list \<Rightarrow> nat list \<Rightarrow> 'a list" where
  "take_rows arr idx = map (\<lambda>i. arr ! i) idx"

subsection \<open>Predicates and example data for the properties\<close>

text \<open>A row with a subject, a finite label and sixteen finite features.\<close>

definition all_finite :: "'a feature_row_scheme \<Rightarrow> bool" where
  "all_finite r =
     (subject r \<noteq> None \<and> isfinite (label r)
      \<and> list_all (\<lambda>c. isfinite (features r c)) FEATURE_COLUMNS)"

text \<open>A session file whose header lacks one of the required columns.\<close>

definition lacks_required :: "session \<Rightarrow> bool" where
  "lacks_required s = (\<exists>c \<in> set LOCAL_REQUIRED. c \<notin> set (csv_columns s))"

text \<open>
  A features CSV of two rows, the second with an infinite feature; a session of two rows,
  one without a temperature; a session file with no \<open>label\<close> column; two rows as
  \<open>wesad_prepare.py\<close> builds them, the second from a window with no heart rate.
\<close>

definition example_wesad_csv :: features_csv where
  "example_wesad_csv =
     \<lparr>fcsv_columns = ''subject'' # ''window_start_s'' # ''window_end_s'' # ''label''
                       # map column_name FEATURE_COLUMNS,
      fcsv_rows =
        [\<lparr>subject = Some ''S2'', label = Fin 0, features = (\<lambda>c. Fin 1)\<rparr>,
         \<lparr>subject = Some ''S3'', label = Fin 1,
          features = (\<lambda>c. if c = Gsr_slope then PInf else Fin 2)\<rparr>]\<rparr>"

definition example_session :: session where
  "example_session =
     \<lparr>csv_stem = ''a'', csv_columns = LOCAL_REQUIRED,
      csv_rows =
        [\<lparr>loc_time_iso = Some 10, loc_ts = Fin 2, loc_bpm_avg = Fin 72, loc_gsr_avg = Fin 1500,
          loc_temp_avg = Fin 33, loc_label = ''Rest ''\<rparr>,
         \<lparr>loc_time_iso = Some 5, loc_ts = Fin 1, loc_bpm_avg = Fin 70, loc_gsr_avg = Fin 1500,
          loc_temp_avg = NaN, loc_label = ''stress''\<rparr>]\<rparr>"

definition example_session_no_label :: session where
  "example_session_no_label =
     \<lparr>csv_stem = ''b'', csv_columns = [''time_iso'', ''ts'', ''bpm_avg'', ''gsr_avg'', ''temp_avg''],
      csv_rows = []\<rparr>"

definition example_wesad_rows :: "wesad_row list" where
  "example_wesad_rows =
     [\<lparr>subject = Some ''S2'', label = Fin 0, features = (\<lambda>c. Fin 1),
       window_start_s = Fin 0, window_end_s = Fin 30\<rparr>,
      \<lparr>subject = Some ''S2'', label = Fin 1,
       features = (\<lambda>c. if c = Bpm_avg then NaN else Fin 1),
       window_start_s = Fin 5, window_end_s = Fin 35\<rparr>]"

text \<open>Two session tables for the unit rules: one in raw units, one in the expected units.\<close>

definition example_raw_units :: "local_row list" where
  "example_raw_units =
     [\<lparr>loc_time_iso = Some 1, loc_ts = Fin 1, loc_bpm_avg = Fin 70, loc_gsr_avg = Fin 1000,
       loc_temp_avg = Fin 8500, loc_label = ''rest''\<rparr>,
      \<lparr>loc_time_iso = Some 2, loc_ts = Fin 2, loc_bpm_avg = Fin 71, loc_gsr_avg = Fin 2000,
       loc_temp_avg = Fin 8400, loc_label = ''rest''\<rparr>,
      \<lparr>loc_time_iso = Some 3, loc_ts = Fin 3, loc_bpm_avg = Fin 72, loc_gsr_avg = Fin 1500,
       loc_temp_avg = Fin 8600, loc_label = ''rest''\<rparr>]"

definition example_plain_units :: "local_row list" where
  "example_plain_units =
     [\<lparr>loc_time_iso = Some 1, loc_ts = Fin 1, loc_bpm_avg = Fin 70, loc_gsr_avg = Fin 2,
       loc_temp_avg = Fin 33, loc_label = ''rest''\<rparr>,
      \<lparr>loc_time_iso = Some 2, loc_ts = Fin 2, loc_bpm_avg = Fin 71, loc_gsr_avg = NaN,
       loc_temp_avg = Fin 34, loc_label = ''rest''\<rparr>]"

section \<open>Properties\<close>

subsection \<open>The group-aware split\<close>

lemma take_drop_disjoint:
  assumes "distinct xs"
  shows "set (take a xs) \<inter> set (take b (drop a xs)) = {}"
proof -
  have "distinct (take a xs @ drop a xs)" using assms by simp
  then have "set (take a xs) \<inter> set (drop a xs) = {}" by (simp only: distinct_append)
  moreover have "set (take b (drop a xs)) \<subseteq> set (drop a xs)" by (rule set_take_subset)
  ultimately show ?thesis by blast
qed

lemma take_rows_filter_mem:
  assumes "g \<in> set (take_rows groups (filter P [0..<length groups]))"
  shows "\<exists>i<length groups. P i \<and> groups ! i = g"
proof -
  from assms obtain i where "i \<in> set (filter P [0..<length groups])" "groups ! i = g"
    unfolding take_rows_def by (metis (no_types, lifting) imageE list.set_map)
  then show ?thesis by auto
qed

text \<open>
  C2. Whenever the split returns, no subject group occurs both among the groups of the
  training rows and among the groups of the evaluation rows, for every table of groups and
  every evaluation fraction; the random draw is any arrangement of the group numbers
  without repetition.
\<close>

theorem group_split_disjoint:
  assumes perm: "distinct (permutation (card (set groups)))"
      and split: "group_shuffle_split permutation test_size groups = Inr (train_idx, test_idx)"
  shows "set (take_rows groups train_idx) \<inter> set (take_rows groups test_idx) = {}"
proof -
  define classes where "classes = sorted_list_of_set (set groups)"
  define ix where "ix = (\<lambda>g. length (takeWhile (\<lambda>c. c \<noteq> g) classes))"
  define gi where "gi = map ix groups"
  have len: "length classes = card (set groups)" by (simp add: classes_def)
  define pm where "pm = permutation (length classes)"
  have dperm: "distinct pm" using perm len by (simp add: pm_def)
  obtain n_train n_test where
    v: "validate_shuffle_split (length classes) test_size = Inr (n_train, n_test)"
  proof (cases "validate_shuffle_split (length classes) test_size")
    case (Inl e)
    then have "group_shuffle_split permutation test_size groups = Inl e"
      by (simp add: group_shuffle_split_def classes_def)
    then show ?thesis using split by simp
  next
    case (Inr p)
    then show ?thesis using that by (cases p) simp
  qed
  define gtest where "gtest = take n_test pm"
  define gtrain where "gtrain = take n_train (drop n_test pm)"
  have eq: "group_shuffle_split permutation test_size groups =
        Inr (filter (\<lambda>i. gi ! i \<in> set gtrain) [0..<length groups],
             filter (\<lambda>i. gi ! i \<in> set gtest) [0..<length groups])"
    using v by (simp add: group_shuffle_split_def Let_def classes_def ix_def gi_def pm_def
        gtest_def gtrain_def)
  have tr: "train_idx = filter (\<lambda>i. gi ! i \<in> set gtrain) [0..<length groups]"
   and te: "test_idx = filter (\<lambda>i. gi ! i \<in> set gtest) [0..<length groups]"
    using split eq by simp_all
  have disj: "set gtest \<inter> set gtrain = {}"
    unfolding gtest_def gtrain_def by (rule take_drop_disjoint[OF dperm])
  show ?thesis
  proof (rule ccontr)
    assume "\<not> ?thesis"
    then obtain g where g1: "g \<in> set (take_rows groups train_idx)"
                    and g2: "g \<in> set (take_rows groups test_idx)" by blast
    from take_rows_filter_mem[OF g1[unfolded tr]]
    obtain i where i: "i < length groups" "gi ! i \<in> set gtrain" "groups ! i = g" by blast
    from take_rows_filter_mem[OF g2[unfolded te]]
    obtain j where j: "j < length groups" "gi ! j \<in> set gtest" "groups ! j = g" by blast
    have "gi ! i = ix g" using i by (simp add: gi_def)
    moreover have "gi ! j = ix g" using j by (simp add: gi_def)
    ultimately have "ix g \<in> set gtrain" "ix g \<in> set gtest" using i(2) j(2) by simp_all
    then show False using disj by blast
  qed
qed

theorem group_split_disjoint_witness:
  "group_shuffle_split (\<lambda>n. rev [0..<n]) (1 / 4)
       [''S2'', ''S3'', ''S2'', ''LOCAL_a'', ''S4'', ''S3''] = Inr ([0, 1, 2, 3, 5], [4])
   \<and> set (take_rows [''S2'', ''S3'', ''S2'', ''LOCAL_a'', ''S4'', ''S3''] [0, 1, 2, 3, 5])
       \<inter> set (take_rows [''S2'', ''S3'', ''S2'', ''LOCAL_a'', ''S4'', ''S3''] [4]) = {}"
proof -
  let ?G = "[''S2'', ''S3'', ''S2'', ''LOCAL_a'', ''S4'', ''S3'']"
  have h1: "distinct ((\<lambda>n. rev [0..<n]) (card (set ?G)))" by simp
  have h2: "group_shuffle_split (\<lambda>n. rev [0..<n]) (1 / 4) ?G = Inr ([0, 1, 2, 3, 5], [4])"
    by code_simp
  from group_split_disjoint [OF h1 h2] h2 show ?thesis by simp
qed

subsection \<open>The HR/HRV extractor\<close>

text \<open>
  C3. A pulse segment with fewer samples than its sample rate gives the result whose six
  fields are all NaN, whatever the peak detector would do: the function returns (it is
  total), and no field is a number.
\<close>

theorem hr_features_short_segment_undefined:
  "int (length bvp) < fs \<Longrightarrow>
   hr_features_from_bvp find_peaks bvp fs =
     \<lparr>bpm_avg = NaN, bpm_min = NaN, bpm_max = NaN, bpm_std = NaN,
      hrv_rmssd = NaN, hrv_sdnn = NaN\<rparr>"
  by (simp add: hr_features_from_bvp_def)

theorem hr_features_short_segment_undefined_witness:
  "int (length [0.5, 0.25, 0.75 :: real]) < 64 \<and>
   hr_features_from_bvp (peaks_at [0, 1]) [0.5, 0.25, 0.75] 64 =
     \<lparr>bpm_avg = NaN, bpm_min = NaN, bpm_max = NaN, bpm_std = NaN,
      hrv_rmssd = NaN, hrv_sdnn = NaN\<rparr>"
  using hr_features_short_segment_undefined [of "[0.5, 0.25, 0.75]" 64 "peaks_at [0, 1]"]
  by simp





subsection \<open>Majority vote\<close>

lemma length_takeWhile_lt:
  "x \<in> set xs \<Longrightarrow> \<not> P x \<Longrightarrow> length (takeWhile P xs) < length xs"
  by (induction xs) auto

lemma np_argmax_first_max:
  assumes "cs \<noteq> []"
  shows "\<exists>i. np_argmax cs = Inr i \<and> i < length cs \<and> cs ! i = Max (set cs)
            \<and> (\<forall>j<i. cs ! j < cs ! i)"
proof -
  let ?m = "Max (set cs)"
  let ?i = "length (takeWhile (\<lambda>c. c \<noteq> ?m) cs)"
  have mem: "?m \<in> set cs" using assms by (simp add: Max_in)
  then have lt: "?i < length cs"
    by (rule length_takeWhile_lt) simp
  have at: "cs ! ?i = ?m"
    using nth_length_takeWhile[OF lt] by simp
  have before: "\<forall>j<?i. cs ! j < ?m"
  proof (intro allI impI)
    fix j assume j: "j < ?i"
    then have "cs ! j \<noteq> ?m"
      by (metis (mono_tags, lifting) nth_mem set_takeWhileD takeWhile_nth)
    moreover have "cs ! j \<le> ?m" using j lt by simp
    ultimately show "cs ! j < ?m" by simp
  qed
  show ?thesis using lt at before assms by (auto simp: np_argmax_def)
qed

text \<open>
  C5. On a non-empty slice the vote returns a label that occurs in the slice, that no
  other code outnumbers, and that is the smallest of the codes with that count. A slice
  that holds five times the code 1, three times the code 2 and nothing else is labelled 1.
\<close>

theorem majority_label_most_frequent:
  assumes "labels \<noteq> []"
  shows "\<exists>v. majority_label labels = Inr v \<and> v \<in> set labels
            \<and> (\<forall>u. count_list labels u \<le> count_list labels v)
            \<and> (\<forall>u. count_list labels u = count_list labels v \<longrightarrow> v \<le> u)
            \<and> (set labels = {1, 2} \<and> count_list labels 1 = 5 \<and> count_list labels 2 = 3
                 \<longrightarrow> v = 1)"
proof -
  let ?vals = "sorted_list_of_set (set labels)"
  let ?cs = "map (count_list labels) ?vals"
  have ne: "?cs \<noteq> []" using assms by simp
  from np_argmax_first_max[OF ne] obtain i where
    i: "np_argmax ?cs = Inr i" "i < length ?cs" "?cs ! i = Max (set ?cs)" "\<forall>j<i. ?cs ! j < ?cs ! i"
    by blast
  let ?v = "?vals ! i"
  have il: "i < length ?vals" using i(2) by simp
  have vin: "?v \<in> set labels" using il by (metis nth_mem set_sorted_list_of_set List.finite_set)
  have cv: "count_list labels ?v = Max (set ?cs)" using i(3) il by simp
  have maxc: "count_list labels u \<le> count_list labels ?v" for u
  proof (cases "u \<in> set labels")
    case True
    then have "count_list labels u \<in> set ?cs" by simp
    then show ?thesis unfolding cv by simp
  next
    case False
    then show ?thesis by (simp add: count_list_0_iff)
  qed
  have tie: "?v \<le> u" if eq: "count_list labels u = count_list labels ?v" for u
  proof (rule ccontr)
    assume "\<not> ?v \<le> u"
    then have lt: "u < ?v" by simp
    have "count_list labels ?v > 0" using vin by (metis count_list_0_iff gr0I)
    then have "u \<in> set labels" using eq by (metis count_list_0_iff less_numeral_extra(3))
    then have "u \<in> set ?vals" by simp
    then obtain j where j: "j < length ?vals" "?vals ! j = u" by (meson in_set_conv_nth)
    have srt: "sorted ?vals" by simp
    have "j < i"
    proof (rule ccontr)
      assume "\<not> j < i"
      then have "i \<le> j" by simp
      then have "?vals ! i \<le> ?vals ! j" using srt j(1) by (simp add: sorted_nth_mono)
      then show False using lt j(2) by simp
    qed
    then have "?cs ! j < ?cs ! i" using i(4) by blast
    then show False using j il eq by simp
  qed
  have five: "?v = 1"
    if h: "set labels = {1, 2} \<and> count_list labels 1 = 5 \<and> count_list labels 2 = 3"
  proof -
    have "?v = 1 \<or> ?v = 2" using vin h by auto
    moreover have "count_list labels 1 \<le> count_list labels ?v" by (rule maxc)
    ultimately show ?thesis using h by auto
  qed
  have "majority_label labels = Inr ?v"
    using i(1) by (simp add: majority_label_def np_unique_counts_def Let_def)
  then show ?thesis using vin maxc tie five by blast
qed

theorem majority_label_most_frequent_witness:
  "[2, 1, 1, 2, 1, 1, 2, 1 :: int] \<noteq> [] \<and> majority_label [2, 1, 1, 2, 1, 1, 2, 1] = Inr 1"
proof -
  have h: "[2, 1, 1, 2, 1, 1, 2, 1 :: int] \<noteq> []" by simp
  from majority_label_most_frequent [OF h] obtain v where
    v: "majority_label [2, 1, 1, 2, 1, 1, 2, 1] = Inr v"
       "set [2, 1, 1, 2, 1, 1, 2, 1 :: int] = {1, 2}
          \<and> count_list [2, 1, 1, 2, 1, 1, 2, 1 :: int] 1 = 5
          \<and> count_list [2, 1, 1, 2, 1, 1, 2, 1 :: int] 2 = 3 \<longrightarrow> v = 1"
    by blast
  have "set [2, 1, 1, 2, 1, 1, 2, 1 :: int] = {1, 2}" by auto
  moreover have "count_list [2, 1, 1, 2, 1, 1, 2, 1 :: int] 1 = 5" by simp
  moreover have "count_list [2, 1, 1, 2, 1, 1, 2, 1 :: int] 2 = 3" by simp
  ultimately have "v = 1" using v(2) by blast
  then show ?thesis using v(1) by simp
qed

subsection \<open>Harmonizing\<close>

lemma FEATURE_COLUMNS_all: "c \<in> set FEATURE_COLUMNS"
  by (cases c) (simp_all add: FEATURE_COLUMNS_def)

lemma FEATURE_COLUMNS_sixteen: "length FEATURE_COLUMNS = 16 \<and> distinct FEATURE_COLUMNS"
  by (simp add: FEATURE_COLUMNS_def)

lemma not_isna_inf_to_nan: "(\<not> isna (inf_to_nan v)) = isfinite v"
  by (cases v) simp_all

lemma inf_to_nan_finite: "isfinite v \<Longrightarrow> inf_to_nan v = v"
  by (cases v) simp_all

lemma all_finite_features: "all_finite r \<Longrightarrow> isfinite (features r c)"
  using FEATURE_COLUMNS_all[of c] by (simp add: all_finite_def list_all_iff)

lemma replace_inf_id: "all_finite r \<Longrightarrow> replace_inf r = r"
proof -
  assume a: "all_finite r"
  have "(\<lambda>c. inf_to_nan (features r c)) = features r"
    using all_finite_features[OF a] by (simp add: inf_to_nan_finite)
  moreover have "inf_to_nan (label r) = label r"
    using a by (simp add: all_finite_def inf_to_nan_finite)
  ultimately show ?thesis by (simp add: replace_inf_def)
qed

lemma dropna_keeps: 
  "(list_all (\<lambda>c. \<not> isna (features (replace_inf r) c)) FEATURE_COLUMNS
     \<and> \<not> isna (label (replace_inf r)) \<and> subject (replace_inf r) \<noteq> None) = all_finite r"
  by (auto simp: replace_inf_def all_finite_def not_isna_inf_to_nan)

lemma dropna_replace_inf: "dropna_subset (map replace_inf rows) = filter all_finite rows"
proof (induction rows)
  case Nil
  show ?case by (simp add: dropna_subset_def)
next
  case (Cons r rows)
  have IH: "filter (\<lambda>r. list_all (\<lambda>c. \<not> isna (features r c)) FEATURE_COLUMNS
                 \<and> \<not> isna (label r) \<and> subject r \<noteq> None) (map replace_inf rows) = filter all_finite rows"
    using Cons.IH by (simp add: dropna_subset_def)
  show ?case
  proof (cases "all_finite r")
    case True
    then show ?thesis using IH dropna_keeps[of r] replace_inf_id[OF True]
      by (simp add: dropna_subset_def)
  next
    case False
    then show ?thesis using IH dropna_keeps[of r]
      by (simp add: dropna_subset_def)
  qed
qed

lemma build_local_features_cases:
  "build_local_features s =
     (if lacks_required s
      then Inl (ValueError_missing_columns (csv_stem s @ ''.csv'')
                 (filter (\<lambda>c. c \<notin> set (csv_columns s)) LOCAL_REQUIRED))
      else Inr (local_feature_rows (csv_stem s) (csv_rows s)))"
  by (simp add: build_local_features_def lacks_required_def Let_def filter_empty_conv)

lemma merge_main_Inr:
  assumes "merge_main wcsv lf = Inr combined"
  shows "\<exists>frames. local_frames lf = Inr frames
           \<and> combined = filter all_finite (fcsv_rows wcsv @ concat frames)"
proof (cases "local_frames lf")
  case (Inl e)
  then have "isl (merge_main wcsv lf)" by (simp add: merge_main_def Let_def)
  then show ?thesis using assms by simp
next
  case (Inr frames)
  then have "merge_main wcsv lf = Inr (filter all_finite (fcsv_rows wcsv @ concat frames))
              \<or> isl (merge_main wcsv lf)"
    by (simp add: merge_main_def Let_def dropna_replace_inf)
  then show ?thesis using assms Inr by auto
qed

lemma local_frames_origin:
  "local_frames lf = Inr frames \<Longrightarrow> frame \<in> set frames \<Longrightarrow>
   \<exists>s \<in> set lf. build_local_features s = Inr frame"
proof (induction lf arbitrary: frames)
  case Nil
  then show ?case by simp
next
  case (Cons f fs)
  from Cons.prems(1) obtain fr frs where
    a: "build_local_features f = Inr fr" "local_frames fs = Inr frs" "frames = fr # frs"
    by (auto split: sum.splits)
  show ?case
  proof (cases "frame = fr")
    case True
    then show ?thesis using a(1) by simp
  next
    case False
    then have "frame \<in> set frs" using Cons.prems(2) a(3) by simp
    from Cons.IH[OF a(2) this] show ?thesis by auto
  qed
qed

lemma wesad_collate_Inr:
  assumes "wesad_collate all_rows = Inr df"
  shows "df = filter (\<lambda>r. all_finite r \<and> isfinite (window_start_s r) \<and> isfinite (window_end_s r))
                all_rows"
proof -
  let ?f = "\<lambda>r. (replace_inf r)\<lparr>window_start_s := inf_to_nan (window_start_s r),
                                   window_end_s := inf_to_nan (window_end_s r)\<rparr>"
  let ?ok = "\<lambda>r. all_finite r \<and> isfinite (window_start_s r) \<and> isfinite (window_end_s r)"
  have df: "df = filter (\<lambda>r. \<not> isna (window_start_s r) \<and> \<not> isna (window_end_s r))
                  (dropna_subset (map ?f all_rows))"
    using assms by (simp add: wesad_collate_def Let_def split: if_splits)
  have keep: "(list_all (\<lambda>c. \<not> isna (features (?f r) c)) FEATURE_COLUMNS
                 \<and> \<not> isna (label (?f r)) \<and> subject (?f r) \<noteq> None
                 \<and> \<not> isna (window_start_s (?f r)) \<and> \<not> isna (window_end_s (?f r))) = ?ok r" for r
    by (auto simp: replace_inf_def all_finite_def not_isna_inf_to_nan)
  have same: "?f r = r" if "?ok r" for r
    using that replace_inf_id[of r] by (simp add: inf_to_nan_finite)
  have "filter (\<lambda>r. \<not> isna (window_start_s r) \<and> \<not> isna (window_end_s r))
          (dropna_subset (map ?f rows)) = filter ?ok rows" for rows
  proof (induction rows)
    case Nil
    show ?case by (simp add: dropna_subset_def)
  next
    case (Cons r rows)
    show ?case
    proof (cases "?ok r")
      case True
      then show ?thesis using Cons.IH keep[of r] same[OF True]
        by (simp add: dropna_subset_def)
    next
      case False
      then show ?thesis using Cons.IH keep[of r]
        by (auto simp add: dropna_subset_def)
    qed
  qed
  then show ?thesis using df by simp
qed

lemma example_kept:
  "labelled_rows (normalize_local_units (sort_values (csv_rows example_session))) =
     [(\<lparr>loc_time_iso = Some 10, loc_ts = Fin 2, loc_bpm_avg = Fin 72, loc_gsr_avg = Fin (3 / 2),
        loc_temp_avg = Fin 33, loc_label = ''Rest ''\<rparr>, 0)]"
  by code_simp

lemma rolling_single:
  "rolling agg [Fin v] 8 k = [if 1 < k then NaN else agg [v]]"
  by (simp add: rolling_def trailing_window_def)

lemma series_single:
  "rmssd_from_bpm_series [v] 8 = [0]" "sdnn_from_bpm_series [v] 8 = [0]"
  "rolling_slope [v] 8 = [Fin 0]"
  by (cases v; simp add: rmssd_from_bpm_series_def sdnn_from_bpm_series_def rolling_slope_def
      trailing_window_def rmssd_window_def sdnn_window_def rolling_slope_window_def)+

lemma example_local_features:
  "map (\<lambda>r. (subject r, label r, map (features r) FEATURE_COLUMNS))
       (local_feature_rows ''a'' (csv_rows example_session)) =
     [(Some ''LOCAL_a'', Fin 0,
       [Fin 72, Fin 72, Fin 72, Fin 0, Fin 0, Fin 0,
        Fin (3 / 2), Fin (3 / 2), Fin (3 / 2), Fin 0, Fin 0,
        Fin 33, Fin 33, Fin 33, Fin 0, Fin 0])]"
  by (simp add: local_feature_rows_def example_kept rolling_single series_single
      dropna_replace_inf all_finite_def agg_min_def agg_max_def fillna_def FEATURE_COLUMNS_def)

lemma example_wesad_header:
  "filter (\<lambda>c. c \<notin> set (fcsv_columns example_wesad_csv))
      (''subject'' # ''label'' # map column_name FEATURE_COLUMNS) = []"
  by (simp add: example_wesad_csv_def FEATURE_COLUMNS_def)

lemma example_missing:
  "build_local_features example_session_no_label = Inl (ValueError_missing_columns ''b.csv'' [''label''])"
  by (simp add: build_local_features_def example_session_no_label_def LOCAL_REQUIRED_def)

lemma example_ok:
  "build_local_features example_session = Inr (local_feature_rows ''a'' (csv_rows example_session))"
  by (simp add: build_local_features_def example_session_def)

lemma merge_main_unfold:
  assumes "filter (\<lambda>c. c \<notin> set (fcsv_columns w))
             (''subject'' # ''label'' # map column_name FEATURE_COLUMNS) = []"
      and "lf \<noteq> []"
  shows "merge_main w lf =
           (case local_frames lf of
              Inl e \<Rightarrow> Inl e
            | Inr frames \<Rightarrow> Inr (filter all_finite (fcsv_rows w @ concat frames)))"
  unfolding merge_main_def Let_def assms(1) using assms(2)
  by (simp add: dropna_replace_inf split: sum.splits del: map_append)

lemma local_feature_rows_all_finite:
  "filter all_finite (local_feature_rows stem rows) = local_feature_rows stem rows"
  by (simp add: local_feature_rows_def Let_def dropna_replace_inf)

lemma example_local_subjects:
  "map subject (local_feature_rows ''a'' (csv_rows example_session)) = [Some ''LOCAL_a'']"
proof -
  have "map fst (map (\<lambda>r. (subject r, label r, map (features r) FEATURE_COLUMNS))
       (local_feature_rows ''a'' (csv_rows example_session))) = [Some ''LOCAL_a'']"
    by (simp only: example_local_features) simp
  then show ?thesis by (simp add: comp_def)
qed

lemma example_wesad_subjects:
  "map subject (filter all_finite (fcsv_rows example_wesad_csv)) = [Some ''S2'']"
  by (simp add: example_wesad_csv_def all_finite_def FEATURE_COLUMNS_def)

lemma wesad_collate_example:
  "wesad_collate example_wesad_rows = Inr [hd example_wesad_rows]"
proof -
  have "wesad_collate example_wesad_rows =
          Inr (filter (\<lambda>r. all_finite r \<and> isfinite (window_start_s r) \<and> isfinite (window_end_s r))
                 example_wesad_rows)"
    using wesad_collate_Inr[of example_wesad_rows]
    by (cases "wesad_collate example_wesad_rows")
       (simp_all add: wesad_collate_def example_wesad_rows_def)
  then show ?thesis
    by (simp add: example_wesad_rows_def all_finite_def FEATURE_COLUMNS_def)
qed

text \<open>
  C8. Every row of the table that \<open>merge_local_and_train.py\<close> writes and trains on has a
  subject, a finite label and sixteen finite features, and is a row of the WESAD table or
  of a session's frame, unchanged: rows with an infinite or missing value are dropped and
  none is filled in. The rows \<open>wesad_prepare.py\<close> writes are, in the same way, rows it
  built whose every column is defined.
\<close>

theorem harmonized_rows_finite:
  "(merge_main wesad_features local_files = Inr combined \<longrightarrow>
      (\<forall>r \<in> set combined.
         subject r \<noteq> None \<and> isfinite (label r) \<and> (\<forall>c. isfinite (features r c))
         \<and> length (map (features r) FEATURE_COLUMNS) = 16
         \<and> (r \<in> set (fcsv_rows wesad_features)
            \<or> (\<exists>s \<in> set local_files. \<exists>frame. build_local_features s = Inr frame \<and> r \<in> set frame))))
   \<and> (wesad_collate all_rows = Inr df \<longrightarrow>
      (\<forall>r \<in> set df.
         subject r \<noteq> None \<and> isfinite (label r) \<and> (\<forall>c. isfinite (features r c))
         \<and> isfinite (window_start_s r) \<and> isfinite (window_end_s r)
         \<and> r \<in> set all_rows))"
proof -
  have merge: "subject r \<noteq> None \<and> isfinite (label r) \<and> (\<forall>c. isfinite (features r c))
         \<and> length (map (features r) FEATURE_COLUMNS) = 16
         \<and> (r \<in> set (fcsv_rows wesad_features)
            \<or> (\<exists>s \<in> set local_files. \<exists>frame. build_local_features s = Inr frame \<and> r \<in> set frame))"
    if m: "merge_main wesad_features local_files = Inr combined" and r: "r \<in> set combined" for r
  proof -
    from merge_main_Inr[OF m] obtain frames where
      f: "local_frames local_files = Inr frames"
         "combined = filter all_finite (fcsv_rows wesad_features @ concat frames)" by blast
    have af: "all_finite r" using r f(2) by auto
    have org: "r \<in> set (fcsv_rows wesad_features) \<or> (\<exists>frame \<in> set frames. r \<in> set frame)"
      using r f(2) by auto
    have "r \<in> set (fcsv_rows wesad_features)
              \<or> (\<exists>s \<in> set local_files. \<exists>frame. build_local_features s = Inr frame \<and> r \<in> set frame)"
      using org local_frames_origin[OF f(1)] by blast
    then show ?thesis
      using af all_finite_features[OF af] FEATURE_COLUMNS_sixteen by (simp add: all_finite_def)
  qed
  have wesad: "subject r \<noteq> None \<and> isfinite (label r) \<and> (\<forall>c. isfinite (features r c))
         \<and> isfinite (window_start_s r) \<and> isfinite (window_end_s r)
         \<and> r \<in> set all_rows"
    if w: "wesad_collate all_rows = Inr df" and r: "r \<in> set df" for r
  proof -
    have ok: "all_finite r \<and> isfinite (window_start_s r) \<and> isfinite (window_end_s r) \<and> r \<in> set all_rows"
      using r wesad_collate_Inr[OF w] by simp
    then show ?thesis
      using all_finite_features[of r] by (simp add: all_finite_def)
  qed
  show ?thesis using merge wesad by blast
qed


theorem harmonized_rows_finite_witness:
  "merge_main example_wesad_csv [example_session]
     = Inr (projr (merge_main example_wesad_csv [example_session]))
   \<and> map subject (projr (merge_main example_wesad_csv [example_session]))
     = [Some ''S2'', Some ''LOCAL_a'']
   \<and> map (\<lambda>r. isfinite (label r)) (projr (merge_main example_wesad_csv [example_session]))
     = [True, True]
   \<and> wesad_collate example_wesad_rows = Inr [hd example_wesad_rows]
   \<and> isfinite (features (hd example_wesad_rows) Bpm_avg)"
proof -
  let ?X = "projr (merge_main example_wesad_csv [example_session])"
  have m: "merge_main example_wesad_csv [example_session]
     = Inr (filter all_finite (fcsv_rows example_wesad_csv)
            @ local_feature_rows ''a'' (csv_rows example_session))"
    by (simp add: merge_main_unfold[OF example_wesad_header] example_ok
        local_feature_rows_all_finite)
  have h1: "merge_main example_wesad_csv [example_session] = Inr ?X"
    by (simp add: m)
  have s: "map subject ?X = [Some ''S2'', Some ''LOCAL_a'']"
    by (simp add: m example_local_subjects example_wesad_subjects)
  note h2 = wesad_collate_example
  note inst = harmonized_rows_finite [of example_wesad_csv "[example_session]" ?X
      example_wesad_rows "[hd example_wesad_rows]"]
  from inst h1 have fin: "\<forall>r \<in> set ?X. isfinite (label r)" by blast
  from inst h2 have w: "isfinite (features (hd example_wesad_rows) Bpm_avg)" by simp
  have "length (map subject ?X) = 2" by (simp only: s) simp
  then have len: "length ?X = 2" by simp
  have "map (\<lambda>r. isfinite (label r)) ?X = map (\<lambda>r. True) ?X"
    using fin by (simp cong: map_cong)
  also have "\<dots> = replicate (length ?X) True" by (simp add: map_replicate_const)
  also have "\<dots> = [True, True]" by (simp add: len numeral_2_eq_2)
  finally have l: "map (\<lambda>r. isfinite (label r)) ?X = [True, True]" .
  show ?thesis using h1 s l h2 w by blast
qed

subsection \<open>Malformed session files\<close>

text \<open>
  C9, as stated, fails: a session file without the \<open>label\<close> column aborts the run with
  its \<open>ValueError\<close>, although the other session and the WESAD table hold usable rows
  (without that file the run yields a table of two rows).
\<close>

theorem merge_main_abort_counterexample:
  "merge_main example_wesad_csv [example_session_no_label, example_session]
     = Inl (ValueError_missing_columns ''b.csv'' [''label''])
   \<and> map_sum id (map subject) (merge_main example_wesad_csv [example_session])
     = Inr [Some ''S2'', Some ''LOCAL_a'']"
proof -
  have a: "merge_main example_wesad_csv [example_session_no_label, example_session]
     = Inl (ValueError_missing_columns ''b.csv'' [''label''])"
    by (simp add: merge_main_unfold[OF example_wesad_header] example_missing)
  have b: "map_sum id (map subject) (merge_main example_wesad_csv [example_session])
     = Inr [Some ''S2'', Some ''LOCAL_a'']"
    by (simp add: merge_main_unfold[OF example_wesad_header] example_ok
        local_feature_rows_all_finite example_local_subjects example_wesad_subjects)
  show ?thesis using a b by simp
qed

lemma local_frames_abort:
  "s \<in> set fs \<Longrightarrow> lacks_required s \<Longrightarrow>
   \<exists>f \<in> set fs. lacks_required f
      \<and> local_frames fs = Inl (ValueError_missing_columns (csv_stem f @ ''.csv'')
                               (filter (\<lambda>c. c \<notin> set (csv_columns f)) LOCAL_REQUIRED))"
proof (induction fs)
  case Nil
  then show ?case by simp
next
  case (Cons a fs)
  show ?case
  proof (cases "lacks_required a")
    case True
    then show ?thesis by (simp add: build_local_features_cases)
  next
    case False
    then have "s \<in> set fs" using Cons.prems by auto
    from Cons.IH[OF this Cons.prems(2)] obtain f where
      f: "f \<in> set fs" "lacks_required f"
         "local_frames fs = Inl (ValueError_missing_columns (csv_stem f @ ''.csv'')
                               (filter (\<lambda>c. c \<notin> set (csv_columns f)) LOCAL_REQUIRED))"
      by blast
    have "local_frames (a # fs) = Inl (ValueError_missing_columns (csv_stem f @ ''.csv'')
                               (filter (\<lambda>c. c \<notin> set (csv_columns f)) LOCAL_REQUIRED))"
      using False f(3) by (simp add: build_local_features_cases)
    then show ?thesis using f(1,2) by auto
  qed
qed

lemma merge_main_isl_of_local_frames:
  "isl (local_frames lf) \<Longrightarrow> isl (merge_main w lf)"
  by (cases "local_frames lf") (simp_all add: merge_main_def Let_def)

text \<open>
  C9, amended. A session file that lacks a required column aborts the whole run, whatever
  the other files and the WESAD table hold: the run yields no table, and with a complete
  WESAD header it ends with the \<open>ValueError\<close> that names the first such file and its
  missing columns.
\<close>

theorem missing_column_aborts_run:
  assumes "s \<in> set local_files" and "lacks_required s"
  shows "isl (merge_main wesad_features local_files)
       \<and> (filter (\<lambda>c. c \<notin> set (fcsv_columns wesad_features))
             (''subject'' # ''label'' # map column_name FEATURE_COLUMNS) = [] \<longrightarrow>
           (\<exists>f \<in> set local_files. lacks_required f
              \<and> merge_main wesad_features local_files =
                  Inl (ValueError_missing_columns (csv_stem f @ ''.csv'')
                        (filter (\<lambda>c. c \<notin> set (csv_columns f)) LOCAL_REQUIRED))))"
proof -
  from local_frames_abort[OF assms] obtain f where
    f: "f \<in> set local_files" "lacks_required f"
       "local_frames local_files = Inl (ValueError_missing_columns (csv_stem f @ ''.csv'')
                               (filter (\<lambda>c. c \<notin> set (csv_columns f)) LOCAL_REQUIRED))"
    by blast
  have a: "isl (merge_main wesad_features local_files)"
    by (rule merge_main_isl_of_local_frames) (simp add: f(3))
  have ne: "local_files \<noteq> []" using assms(1) by auto
  have b: "merge_main wesad_features local_files =
                  Inl (ValueError_missing_columns (csv_stem f @ ''.csv'')
                        (filter (\<lambda>c. c \<notin> set (csv_columns f)) LOCAL_REQUIRED))"
    if h: "filter (\<lambda>c. c \<notin> set (fcsv_columns wesad_features))
             (''subject'' # ''label'' # map column_name FEATURE_COLUMNS) = []"
    using merge_main_unfold[OF h ne] f(3) by simp
  show ?thesis using a b f(1,2) by blast
qed

theorem missing_column_aborts_run_witness:
  "example_session_no_label \<in> set [example_session, example_session_no_label]
   \<and> lacks_required example_session_no_label
   \<and> merge_main example_wesad_csv [example_session, example_session_no_label]
       = Inl (ValueError_missing_columns ''b.csv'' [''label''])"
proof -
  have h1: "example_session_no_label \<in> set [example_session, example_session_no_label]" by simp
  have h2: "lacks_required example_session_no_label"
    by (simp add: lacks_required_def example_session_no_label_def LOCAL_REQUIRED_def)
  have g: "\<not> lacks_required example_session"
    by (simp add: lacks_required_def example_session_def)
  have m: "filter (\<lambda>c. c \<notin> set (csv_columns example_session_no_label)) LOCAL_REQUIRED = [''label'']"
    by (simp add: example_session_no_label_def LOCAL_REQUIRED_def)
  have st: "csv_stem example_session_no_label = ''b''"
    by (simp add: example_session_no_label_def)
  from missing_column_aborts_run [OF h1 h2, of example_wesad_csv] example_wesad_header
  obtain f where f: "f \<in> set [example_session, example_session_no_label]" "lacks_required f"
     "merge_main example_wesad_csv [example_session, example_session_no_label] =
        Inl (ValueError_missing_columns (csv_stem f @ ''.csv'')
              (filter (\<lambda>c. c \<notin> set (csv_columns f)) LOCAL_REQUIRED))"
    by blast
  have "f = example_session_no_label" using f(1,2) g by auto
  then show ?thesis using f(3) h1 h2 by (simp add: m st)
qed


subsection \<open>Unit normalization\<close>

lemma fkey_fdiv_mono:
  assumes "0 < c"
  shows "(fkey (fdiv a c) \<le> fkey (fdiv b c)) = (fkey a \<le> fkey b)"
  using assms by (cases a; cases b) (simp_all add: divide_le_cancel less_eq_prod_def)

lemma insort_key_map_mono:
  assumes "\<And>a b. (k (f a) \<le> k (f b)) = (k a \<le> k b)"
  shows "insort_key k (f x) (map f xs) = map f (insort_key k x xs)"
  by (induction xs) (simp_all add: assms)

lemma sort_key_map_mono:
  assumes "\<And>a b. (k (f a) \<le> k (f b)) = (k a \<le> k b)"
  shows "sort_key k (map f xs) = map f (sort_key k xs)"
proof (induction xs)
  case Nil
  show ?case by simp
next
  case (Cons x xs)
  have "insort_key k (f x) (map f (sort_key k xs)) = map f (insort_key k x (sort_key k xs))"
    by (rule insort_key_map_mono) (rule assms)
  then show ?case using Cons.IH by simp
qed

lemma isna_fdiv: "isna (fdiv v c) = isna v"
  by (cases v) simp_all

lemma fdiv_half_sum:
  "fdiv (fadd (fdiv a c) (fdiv b c)) 2 = fdiv (fdiv (fadd a b) 2) c"
  by (cases a; cases b) (simp_all add: add_divide_distrib)

lemma median_skipna_fdiv:
  assumes "0 < c"
  shows "median_skipna (map (\<lambda>v. fdiv v c) col) = fdiv (median_skipna col) c"
proof -
  let ?f = "\<lambda>v. fdiv v c"
  let ?v = "sort_key fkey (filter (\<lambda>a. \<not> isna a) col)"
  have flt: "filter (\<lambda>a. \<not> isna a) (map ?f col) = map ?f (filter (\<lambda>a. \<not> isna a) col)"
    by (simp add: filter_map comp_def isna_fdiv)
  have srt: "sort_key fkey (filter (\<lambda>a. \<not> isna a) (map ?f col)) = map ?f ?v"
    unfolding flt by (rule sort_key_map_mono) (rule fkey_fdiv_mono[OF assms])
  show ?thesis
  proof (cases "length ?v = 0")
    case True
    then show ?thesis unfolding median_skipna_def srt by (simp add: Let_def)
  next
    case False
    then have pos: "0 < length ?v" by simp
    then have h: "length ?v div 2 < length ?v" by simp
    then have h1: "length ?v div 2 - 1 < length ?v" by simp
    show ?thesis unfolding median_skipna_def srt Let_def
      using False h h1 by (simp add: fdiv_half_sum del: sort_key_simps)
  qed
qed

lemma fgt_fdiv: "0 < c \<Longrightarrow> fgt (fdiv (Fin m) c) (Fin b) = (m > b * c)"
  by (simp add: field_simps)

lemma temp_of_gsr_update:
  "map loc_temp_avg (map (\<lambda>r. r\<lparr>loc_gsr_avg := f r\<rparr>) df) = map loc_temp_avg df"
  by simp

lemma gsr_of_temp_update:
  "map loc_gsr_avg (map (\<lambda>r. r\<lparr>loc_temp_avg := f r\<rparr>) df) = map loc_gsr_avg df"
  by simp

lemma gsr_update:
  "map loc_gsr_avg (map (\<lambda>r. r\<lparr>loc_gsr_avg := fdiv (loc_gsr_avg r) c\<rparr>) df)
     = map (\<lambda>v. fdiv v c) (map loc_gsr_avg df)"
  by simp

lemma temp_update:
  "map loc_temp_avg (map (\<lambda>r. r\<lparr>loc_temp_avg := fdiv (loc_temp_avg r) c\<rparr>) df)
     = map (\<lambda>v. fdiv v c) (map loc_temp_avg df)"
  by simp

lemma normalize_gsr:
  "map loc_gsr_avg (normalize_local_units df) =
     (if fgt (median_skipna (map loc_gsr_avg df)) (Fin 50)
      then map (\<lambda>v. fdiv v 1000) (map loc_gsr_avg df) else map loc_gsr_avg df)"
  by (simp add: normalize_local_units_def Let_def comp_def)

lemma normalize_temp:
  "map loc_temp_avg (normalize_local_units df) =
     (let t = map loc_temp_avg df;
          t1 = (if fgt (median_skipna t) (Fin 80) then map (\<lambda>v. fdiv v 10) t else t)
      in if fgt (median_skipna t1) (Fin 80) then map (\<lambda>v. fdiv v 10) t1 else t1)"
  by (simp add: normalize_local_units_def Let_def comp_def)

text \<open>
  C6. The conductance column is divided by 1000 when its median exceeds 50 and is left as
  it is otherwise; the division happens once, whatever the new median is, so a median of
  1500 becomes 1.5. The temperature rule is tested again after its first application: a
  median above 800 divides the column by 10 twice, a median above 80 and at most 800
  once, and no median divides it a third time.
\<close>

theorem normalize_local_units_rules:
  "(fgt (median_skipna (map loc_gsr_avg df)) (Fin 50) \<longrightarrow>
       map loc_gsr_avg (normalize_local_units df) = map (\<lambda>v. fdiv v 1000) (map loc_gsr_avg df))
   \<and> (\<not> fgt (median_skipna (map loc_gsr_avg df)) (Fin 50) \<longrightarrow>
       map loc_gsr_avg (normalize_local_units df) = map loc_gsr_avg df)
   \<and> (median_skipna (map loc_gsr_avg df) = Fin 1500 \<longrightarrow>
       median_skipna (map loc_gsr_avg (normalize_local_units df)) = Fin (3 / 2))
   \<and> (\<forall>m. median_skipna (map loc_temp_avg df) = Fin m \<longrightarrow>
       map loc_temp_avg (normalize_local_units df) =
         (if 800 < m then map (\<lambda>v. fdiv (fdiv v 10) 10) (map loc_temp_avg df)
          else if 80 < m then map (\<lambda>v. fdiv v 10) (map loc_temp_avg df)
          else map loc_temp_avg df))"
proof -
  have g1500: "median_skipna (map loc_gsr_avg (normalize_local_units df)) = Fin (3 / 2)"
    if "median_skipna (map loc_gsr_avg df) = Fin 1500"
    using that by (simp add: normalize_gsr median_skipna_fdiv del: map_map)
  have t: "map loc_temp_avg (normalize_local_units df) =
         (if 800 < m then map (\<lambda>v. fdiv (fdiv v 10) 10) (map loc_temp_avg df)
          else if 80 < m then map (\<lambda>v. fdiv v 10) (map loc_temp_avg df)
          else map loc_temp_avg df)"
    if "median_skipna (map loc_temp_avg df) = Fin m" for m
    using that
    apply (simp add: normalize_temp Let_def median_skipna_fdiv del: map_map)
    apply (simp add: comp_def)
    done
  show ?thesis using g1500 t by (simp add: normalize_gsr)
qed


theorem normalize_local_units_rules_witness:
  "fgt (median_skipna (map loc_gsr_avg example_raw_units)) (Fin 50)
   \<and> median_skipna (map loc_gsr_avg example_raw_units) = Fin 1500
   \<and> map loc_gsr_avg (normalize_local_units example_raw_units) = [Fin 1, Fin 2, Fin (3 / 2)]
   \<and> median_skipna (map loc_gsr_avg (normalize_local_units example_raw_units)) = Fin (3 / 2)
   \<and> median_skipna (map loc_temp_avg example_raw_units) = Fin 8500
   \<and> map loc_temp_avg (normalize_local_units example_raw_units) = [Fin 85, Fin 84, Fin 86]
   \<and> \<not> fgt (median_skipna (map loc_gsr_avg example_plain_units)) (Fin 50)
   \<and> map loc_gsr_avg (normalize_local_units example_plain_units) = [Fin 2, NaN]"
proof -
  have g: "map loc_gsr_avg example_raw_units = [Fin 1000, Fin 2000, Fin 1500]"
    and t: "map loc_temp_avg example_raw_units = [Fin 8500, Fin 8400, Fin 8600]"
    and p: "map loc_gsr_avg example_plain_units = [Fin 2, NaN]"
    by (simp_all add: example_raw_units_def example_plain_units_def)
  have mg: "median_skipna [Fin 1000, Fin 2000, Fin 1500] = Fin 1500"
    and mt: "median_skipna [Fin 8500, Fin 8400, Fin 8600] = Fin 8500"
    and mp: "median_skipna [Fin 2, NaN] = Fin 2"
    by code_simp+
  have a1: "fgt (median_skipna (map loc_gsr_avg example_raw_units)) (Fin 50)"
    and a2: "median_skipna (map loc_gsr_avg example_raw_units) = Fin 1500"
    and a3: "median_skipna (map loc_temp_avg example_raw_units) = Fin 8500"
    and a4: "\<not> fgt (median_skipna (map loc_gsr_avg example_plain_units)) (Fin 50)"
    by (simp_all add: g t p mg mt mp)
  from normalize_local_units_rules [of example_raw_units] a1
  have b1: "map loc_gsr_avg (normalize_local_units example_raw_units)
              = map (\<lambda>v. fdiv v 1000) (map loc_gsr_avg example_raw_units)" by blast
  from normalize_local_units_rules [of example_raw_units] a2
  have b2: "median_skipna (map loc_gsr_avg (normalize_local_units example_raw_units)) = Fin (3 / 2)"
    by blast
  from normalize_local_units_rules [of example_raw_units] a3
  have b3: "map loc_temp_avg (normalize_local_units example_raw_units) =
         (if (800::real) < 8500 then map (\<lambda>v. fdiv (fdiv v 10) 10) (map loc_temp_avg example_raw_units)
          else if (80::real) < 8500 then map (\<lambda>v. fdiv v 10) (map loc_temp_avg example_raw_units)
          else map loc_temp_avg example_raw_units)" by blast
  from normalize_local_units_rules [of example_plain_units] a4
  have b4: "map loc_gsr_avg (normalize_local_units example_plain_units)
              = map loc_gsr_avg example_plain_units" by blast
  have c1: "map loc_gsr_avg (normalize_local_units example_raw_units) = [Fin 1, Fin 2, Fin (3 / 2)]"
    unfolding b1 g by simp
  have c3: "map loc_temp_avg (normalize_local_units example_raw_units) = [Fin 85, Fin 84, Fin 86]"
    unfolding b3 t by simp
  have c4: "map loc_gsr_avg (normalize_local_units example_plain_units) = [Fin 2, NaN]"
    unfolding b4 p by simp
  show ?thesis using a1 a2 a3 a4 b2 c1 c3 c4 by blast
qed


subsection \<open>Rolling windows with too few samples\<close>

lemma valid_bpm_le:
  "length (valid_bpm w) \<le> length (filter (\<lambda>v. isfinite v \<and> fgt v (Fin 0)) w)"
proof (induction w)
  case Nil
  show ?case by simp
next
  case (Cons a w)
  show ?case
  proof (cases a)
    case (Fin v)
    then show ?thesis using Cons.IH by auto
  qed (use Cons.IH in simp_all)
qed

lemma rmssd_window_zero:
  "length (filter (\<lambda>v. isfinite v \<and> fgt v (Fin 0)) w) < 3 \<Longrightarrow> rmssd_window w = 0"
  using valid_bpm_le[of w] by (simp add: rmssd_window_def)

lemma sdnn_window_zero:
  "length (filter (\<lambda>v. isfinite v \<and> fgt v (Fin 0)) w) < 2 \<Longrightarrow> sdnn_window w = 0"
  using valid_bpm_le[of w] by (simp add: sdnn_window_def)

lemma trailing_window_first: "values \<noteq> [] \<Longrightarrow> trailing_window values 8 0 = [hd values]"
  by (cases "values") (simp_all add: trailing_window_def)

lemma observations_le: "length (observations w) \<le> length w"
  by (induction w rule: observations.induct) simp_all

text \<open>
  C7. At row \<open>i\<close> of a column, with the trailing window of width 8: the rolling
  standard deviation is 0 when the window holds fewer than two observations (always so
  at the first row); the rolling RMSSD is 0 when fewer than three samples of the window
  are finite and strictly positive; the rolling SDNN is 0 when fewer than two are.
\<close>

theorem rolling_insufficient_zero:
  assumes "i < length values"
  shows "(length (observations (trailing_window values 8 i)) < 2 \<longrightarrow>
            fillna 0 (rolling agg_std values 8 2) ! i = Fin 0)
       \<and> (i = 0 \<longrightarrow> fillna 0 (rolling agg_std values 8 2) ! i = Fin 0)
       \<and> (length (filter (\<lambda>v. isfinite v \<and> fgt v (Fin 0)) (trailing_window values 8 i)) < 3 \<longrightarrow>
            rmssd_from_bpm_series values 8 ! i = 0)
       \<and> (length (filter (\<lambda>v. isfinite v \<and> fgt v (Fin 0)) (trailing_window values 8 i)) < 2 \<longrightarrow>
            sdnn_from_bpm_series values 8 ! i = 0)"
proof -
  have std: "fillna 0 (rolling agg_std values 8 2) ! i = Fin 0"
    if "length (observations (trailing_window values 8 i)) < 2"
    using that assms by (simp add: fillna_def rolling_def)
  have first: "fillna 0 (rolling agg_std values 8 2) ! i = Fin 0" if "i = 0"
  proof -
    have "values \<noteq> []" using assms by auto
    then have "length (observations (trailing_window values 8 i)) \<le> 1"
      using observations_le[of "trailing_window values 8 0"] that
      by (simp add: trailing_window_first)
    then show ?thesis using std by simp
  qed
  have r: "rmssd_from_bpm_series values 8 ! i = 0"
    if "length (filter (\<lambda>v. isfinite v \<and> fgt v (Fin 0)) (trailing_window values 8 i)) < 3"
    using that assms by (simp add: rmssd_from_bpm_series_def rmssd_window_zero)
  have s: "sdnn_from_bpm_series values 8 ! i = 0"
    if "length (filter (\<lambda>v. isfinite v \<and> fgt v (Fin 0)) (trailing_window values 8 i)) < 2"
    using that assms by (simp add: sdnn_from_bpm_series_def sdnn_window_zero)
  show ?thesis using std first r s by blast
qed

theorem rolling_insufficient_zero_witness:
  "(2::nat) < length [Fin 70, PInf, Fin 72, Fin 71]
   \<and> length (observations (trailing_window [Fin 70, PInf, Fin 72, Fin 71] 8 1)) < 2
   \<and> fillna 0 (rolling agg_std [Fin 70, PInf, Fin 72, Fin 71] 8 2) ! 1 = Fin 0
   \<and> length (filter (\<lambda>v. isfinite v \<and> fgt v (Fin 0))
               (trailing_window [Fin 70, PInf, Fin 72, Fin 71] 8 2)) < 3
   \<and> rmssd_from_bpm_series [Fin 70, PInf, Fin 72, Fin 71] 8 ! 2 = 0
   \<and> length (filter (\<lambda>v. isfinite v \<and> fgt v (Fin 0))
               (trailing_window [Fin 70, PInf, Fin 72, Fin 71] 8 1)) < 2
   \<and> sdnn_from_bpm_series [Fin 70, PInf, Fin 72, Fin 71] 8 ! 1 = 0"
proof -
  have l1: "(1::nat) < length [Fin 70, PInf, Fin 72, Fin 71]" by simp
  have l2: "(2::nat) < length [Fin 70, PInf, Fin 72, Fin 71]" by simp
  have a: "length (observations (trailing_window [Fin 70, PInf, Fin 72, Fin 71] 8 1)) < 2"
    by (simp add: trailing_window_def)
  have b: "length (filter (\<lambda>v. isfinite v \<and> fgt v (Fin 0))
               (trailing_window [Fin 70, PInf, Fin 72, Fin 71] 8 2)) < 3"
    by (simp add: trailing_window_def)
  have c: "length (filter (\<lambda>v. isfinite v \<and> fgt v (Fin 0))
               (trailing_window [Fin 70, PInf, Fin 72, Fin 71] 8 1)) < 2"
    by (simp add: trailing_window_def)
  from rolling_insufficient_zero [OF l1] rolling_insufficient_zero [OF l2] a b c
  show ?thesis by simp
qed


end
